theory Spec2Isabelle
  imports Complex_Main "HOL-Library.Sublist"
begin

section \<open>Python values, strings and library functions\<close>

text \<open>
  Both scripts (\<^verbatim>\<open>export_geojson.py\<close> and \<^verbatim>\<open>generate_map.py\<close>) read CSV rows as
  dictionaries of strings, call the Mapbox geocoding service and work on the parsed JSON
  answer. Strings are modelled as \<^typ>\<open>string\<close>: the UTF-8 bytes of the text, as the CSV
  file holds them. Finite Python floats are modelled by their exact value as a \<^typ>\<open>rat\<close>, so
  that Python's \<^verbatim>\<open>==\<close> on finite floats is equality of the model (NaN and the infinities
  are outside the model, as they are outside the Coordinate type of the data model).
\<close>

datatype exn =
    AttributeError | TypeError | KeyError | IndexError | ValueError | OverflowError
  | IOError string

text \<open>
  \<open>IOError msg\<close> stands for whatever \<^verbatim>\<open>urlopen\<close> and \<^verbatim>\<open>json.load\<close> raise (URLError,
  HTTPError, JSONDecodeError, ...). Every constructor is a subclass of Python's
  \<^verbatim>\<open>Exception\<close>, which is what the \<^verbatim>\<open>except Exception\<close> clauses catch.
\<close>

datatype pyval =
    PNone
  | PBool bool
  | PInt int
  | PFloat rat
  | PStr string
  | PList "pyval list"
  | PDict "(string \<times> pyval) list"

text \<open>The value of a parsed JSON document, as \<^verbatim>\<open>json.load\<close> returns it.\<close>

type_synonym coord = "rat \<times> rat"

text \<open>
  The Python built-ins whose results the scripts use without the repository defining them:
  \<^verbatim>\<open>float(int)\<close>, \<^verbatim>\<open>float(str)\<close>, the format specification \<^verbatim>\<open>:.6f\<close> and
  \<^verbatim>\<open>urllib.parse.quote_plus\<close> (through \<^verbatim>\<open>urlencode\<close>). They are parameters of the model.
\<close>

record pylib =
  float_of_int :: "int \<Rightarrow> exn + rat"
  float_of_str :: "string \<Rightarrow> exn + rat"
  fmt6 :: "rat \<Rightarrow> string"
  quote_plus :: "string \<Rightarrow> string"

fun truthy :: "pyval \<Rightarrow> bool" where
  "truthy PNone = False"
| "truthy (PBool b) = b"
| "truthy (PInt i) = (i \<noteq> 0)"
| "truthy (PFloat f) = (f \<noteq> 0)"
| "truthy (PStr s) = (s \<noteq> [])"
| "truthy (PList xs) = (xs \<noteq> [])"
| "truthy (PDict kvs) = (kvs \<noteq> [])"

text \<open>\<^verbatim>\<open>x.get(k)\<close>: only a dict has the method; a missing key gives \<^verbatim>\<open>None\<close>.\<close>

fun py_get :: "pyval \<Rightarrow> string \<Rightarrow> exn + pyval" where
  "py_get (PDict kvs) k = Inr (case map_of kvs k of None \<Rightarrow> PNone | Some v \<Rightarrow> v)"
| "py_get _ k = Inl AttributeError"

text \<open>
  \<^verbatim>\<open>x[i]\<close> for a non-negative integer \<open>i\<close>. A JSON object has string keys only, so an
  integer subscript raises KeyError; a number, a boolean and None are not subscriptable.
\<close>

fun py_index :: "pyval \<Rightarrow> nat \<Rightarrow> exn + pyval" where
  "py_index (PList xs) i = (if i < length xs then Inr (xs ! i) else Inl IndexError)"
| "py_index (PStr s) i = (if i < length s then Inr (PStr [s ! i]) else Inl IndexError)"
| "py_index (PDict kvs) i = Inl KeyError"
| "py_index _ i = Inl TypeError"

fun py_float :: "pylib \<Rightarrow> pyval \<Rightarrow> exn + rat" where
  "py_float lib (PFloat f) = Inr f"
| "py_float lib (PInt i) = float_of_int lib i"
| "py_float lib (PBool b) = Inr (if b then 1 else 0)"
| "py_float lib (PStr s) = float_of_str lib s"
| "py_float lib _ = Inl TypeError"

definition ebind :: "exn + 'a \<Rightarrow> ('a \<Rightarrow> exn + 'b) \<Rightarrow> exn + 'b" where
  "ebind m f = (case m of Inl e \<Rightarrow> Inl e | Inr v \<Rightarrow> f v)"

text \<open>
  The expression \<^verbatim>\<open>float(c[0]), float(c[1])\<close>, which both scripts apply to the
  \<^verbatim>\<open>center\<close> of the first candidate, evaluated left to right.
\<close>

definition center_pair :: "pylib \<Rightarrow> pyval \<Rightarrow> exn + coord" where
  "center_pair lib c =
     ebind (py_index c 0) (\<lambda>c0.
     ebind (py_float lib c0) (\<lambda>lon.
     ebind (py_index c 1) (\<lambda>c1.
     ebind (py_float lib c1) (\<lambda>lat. Inr (lon, lat)))))"

subsection \<open>Strings\<close>

text \<open>
  \<^verbatim>\<open>str.strip()\<close> removes the leading and the trailing whitespace characters, those for
  which \<^verbatim>\<open>str.isspace\<close> holds: U+0009 to U+000D, U+001C to U+0020, U+0085, U+00A0, U+1680,
  U+2000 to U+200A, U+2028, U+2029, U+202F, U+205F and U+3000. \<open>whitespace\<close> lists them as
  their UTF-8 bytes. The cells are decoded from UTF-8, so a string starts (ends) with the
  bytes of a character exactly when that character is its first (last) one.
\<close>

definition whitespace :: "string list" where
  "whitespace =
     [[CHR 0x09], [CHR 0x0A], [CHR 0x0B], [CHR 0x0C], [CHR 0x0D],
      [CHR 0x1C], [CHR 0x1D], [CHR 0x1E], [CHR 0x1F], [CHR 0x20],
      [CHR 0xC2, CHR 0x85], [CHR 0xC2, CHR 0xA0],
      [CHR 0xE1, CHR 0x9A, CHR 0x80],
      [CHR 0xE2, CHR 0x80, CHR 0x80], [CHR 0xE2, CHR 0x80, CHR 0x81],
      [CHR 0xE2, CHR 0x80, CHR 0x82], [CHR 0xE2, CHR 0x80, CHR 0x83],
      [CHR 0xE2, CHR 0x80, CHR 0x84], [CHR 0xE2, CHR 0x80, CHR 0x85],
      [CHR 0xE2, CHR 0x80, CHR 0x86], [CHR 0xE2, CHR 0x80, CHR 0x87],
      [CHR 0xE2, CHR 0x80, CHR 0x88], [CHR 0xE2, CHR 0x80, CHR 0x89],
      [CHR 0xE2, CHR 0x80, CHR 0x8A],
      [CHR 0xE2, CHR 0x80, CHR 0xA8], [CHR 0xE2, CHR 0x80, CHR 0xA9],
      [CHR 0xE2, CHR 0x80, CHR 0xAF],
      [CHR 0xE2, CHR 0x81, CHR 0x9F],
      [CHR 0xE3, CHR 0x80, CHR 0x80]]"

text \<open>Removes from the front of \<open>s\<close> every leading occurrence of one of the sequences \<open>ws\<close>.\<close>

function drop_spaces :: "string list \<Rightarrow> string \<Rightarrow> string" where
  "drop_spaces ws s =
     (case find (\<lambda>w. w \<noteq> [] \<and> prefix w s) ws of
        None \<Rightarrow> s
      | Some w \<Rightarrow> drop_spaces ws (drop (length w) s))"
  by pat_completeness auto
termination
  by (relation "measure (\<lambda>(ws, s). length s)") (auto simp: find_Some_iff prefix_def)

definition strip :: "string \<Rightarrow> string" where
  "strip s = rev (drop_spaces (map rev whitespace) (rev (drop_spaces whitespace s)))"

text \<open>
  \<^verbatim>\<open>str.lower()\<close> on ASCII letters. No non-ASCII character lowers to one of the letters of
  \<^verbatim>\<open>utrecht\<close>, so the comparison with that literal is the one Python makes.
\<close>

definition lower_char :: "char \<Rightarrow> char" where
  "lower_char c = (let n = (of_char c :: nat) in if 65 \<le> n \<and> n \<le> 90 then char_of (n + 32) else c)"

definition lower :: "string \<Rightarrow> string" where
  "lower s = map lower_char s"

text \<open>\<^verbatim>\<open>sep.join(parts)\<close>\<close>

fun join :: "string \<Rightarrow> string list \<Rightarrow> string" where
  "join sep [] = []"
| "join sep [p] = p"
| "join sep (p # q # ps) = p @ sep @ join sep (q # ps)"

text \<open>\<^verbatim>\<open>str(n)\<close> for a non-negative integer.\<close>

fun str_nat :: "nat \<Rightarrow> string" where
  "str_nat n = (if n < 10 then [char_of (48 + n)] else str_nat (n div 10) @ [char_of (48 + n mod 10)])"

section \<open>Records and the effects of a run\<close>

text \<open>
  A CSV row as \<^verbatim>\<open>csv.DictReader\<close> yields it: column name to cell. A column the row lacks
  (or whose cell is None, for a short row) is \<open>None\<close>; the scripts read every cell as
  \<^verbatim>\<open>(row.get(k) or "")\<close>, which is \<open>cell\<close>.
\<close>

type_synonym row = "string \<rightharpoonup> string"

definition cell :: "row \<Rightarrow> string \<Rightarrow> string" where
  "cell row k = (case row k of None \<Rightarrow> [] | Some v \<Rightarrow> v)"

text \<open>
  The geocoding service: the answer to the \<open>n\<close>-th request of a run (counting from 0), asked
  for an address, is either the exception \<^verbatim>\<open>urlopen\<close> or \<^verbatim>\<open>json.load\<close> raises or the parsed
  document. The access token is fixed for a run and is part of the service.
\<close>

type_synonym service = "nat \<Rightarrow> string \<Rightarrow> exn + pyval"

text \<open>
  What a run does besides computing its result, in order: a geocoding request for an address,
  \<^verbatim>\<open>time.sleep\<close> with the number of milliseconds, and the two kinds of lines written to
  \<^verbatim>\<open>sys.stderr\<close> (the one of the \<^verbatim>\<open>except\<close> branch, with the address and the exception, and the
  "no result" one, with the address).
\<close>

datatype event =
    Call string
  | Sleep nat
  | Diag_exn string exn
  | Diag_none string

definition RATE_LIMIT_DELAY :: nat where
  "RATE_LIMIT_DELAY = 150"

section \<open>export_geojson.py\<close>

record rec =
  cols :: row
  row_idx :: nat

text \<open>
  \<^verbatim>\<open>read_rows\<close> numbers the rows from 0 and stores the number under \<^verbatim>\<open>__row\<close>, overwriting
  a column of that name; \<open>row_idx\<close> is \<^verbatim>\<open>row["__row"]\<close> and \<open>cols\<close> the other keys.
\<close>

definition read_rows :: "row list \<Rightarrow> rec list" where
  "read_rows csv = map (\<lambda>(i, row). \<lparr>cols = row, row_idx = i\<rparr>) (enumerate 0 csv)"

definition build_full_address :: "rec \<Rightarrow> string" where
  "build_full_address row =
     (let adres = strip (cell (cols row) ''Adres'');
          postcode = strip (cell (cols row) ''Postcode'')
      in join '', '' (filter (\<lambda>p. p \<noteq> []) [adres, postcode, ''Utrecht, Nederland'']))"

text \<open>
  \<^verbatim>\<open>geocode\<close>: the request, then the first candidate's \<^verbatim>\<open>center\<close> as a pair of floats,
  or None. Everything it raises is the \<open>Inl\<close> result.
\<close>

definition geocode :: "pylib \<Rightarrow> service \<Rightarrow> nat \<Rightarrow> string \<Rightarrow> exn + coord option" where
  "geocode lib srv n address =
     ebind (srv n address) (\<lambda>data.
     ebind (py_get data ''features'') (\<lambda>fv.
       let feats = (if truthy fv then fv else PList []) in
       if \<not> truthy feats then Inr None
       else
         ebind (py_index feats 0) (\<lambda>f0.
         ebind (py_get f0 ''center'') (\<lambda>c.
           if truthy c then ebind (center_pair lib c) (\<lambda>p. Inr (Some p))
           else Inr None))))"

datatype pval = VStr string | VInt nat

definition keep :: "(string \<times> string) list" where
  "keep =
     [(''Naam persoon A'', ''naamA''),
      (''Naam persoon B'', ''naamB''),
      (''Adres'', ''adres''),
      (''Postcode'', ''postcode''),
      (''Stad'', ''stad''),
      (''Team persoon A'', ''teamA''),
      (''Team persoon B'', ''teamB''),
      (''Dieetwensen'', ''dieet''),
      (''Allergie'' @ [CHR 0xC3, CHR 0xAB] @ ''n'', ''allergie''),
      (''Overige opmerkingen'', ''opmerking'')]"

text \<open>
  The dictionary \<^verbatim>\<open>sanitize_props\<close> returns, as the list of its items in insertion order.
\<close>

definition sanitize_props :: "rec \<Rightarrow> (string \<times> pval) list" where
  "sanitize_props row =
     map (\<lambda>(k, v). (v, VStr (strip (cell (cols row) k)))) keep @ [(''row'', VInt (row_idx row))]"

record geometry =
  g_type :: string
  coordinates :: "rat list"

record feature =
  f_type :: string
  geom :: geometry
  properties :: "(string \<times> pval) list"

record feature_collection =
  fc_type :: string
  fc_features :: "feature list"

text \<open>The state of the loop of \<^verbatim>\<open>main\<close>: the features, the effects so far, the requests made.\<close>

record mstate =
  feats :: "feature list"
  trace :: "event list"
  calls :: nat

text \<open>The city test of \<^verbatim>\<open>main\<close>: \<^verbatim>\<open>stad and stad != "utrecht"\<close> for the stripped, lowered cell.\<close>

definition city_excluded :: "rec \<Rightarrow> bool" where
  "city_excluded row =
     (let stad = lower (strip (cell (cols row) ''Stad'')) in stad \<noteq> [] \<and> stad \<noteq> ''utrecht'')"

text \<open>One iteration of the loop of \<^verbatim>\<open>main\<close>.\<close>

definition main_row :: "pylib \<Rightarrow> service \<Rightarrow> mstate \<Rightarrow> rec \<Rightarrow> mstate" where
  "main_row lib srv st row =
     (if city_excluded row then st
      else
        let address = build_full_address row in
        if address = [] then st
        else
          let st1 = st\<lparr>trace := trace st @ [Call address], calls := calls st + 1\<rparr>;
              (coord, st2) =
                (case geocode lib srv (calls st) address of
                   Inl e \<Rightarrow> (None, st1\<lparr>trace := trace st1 @ [Diag_exn address e]\<rparr>)
                 | Inr c \<Rightarrow> (c, st1))
          in case coord of
               None \<Rightarrow> st2\<lparr>trace := trace st2 @ [Diag_none address]\<rparr>
             | Some (lon, lat) \<Rightarrow>
                 st2\<lparr>feats := feats st2 @
                        [\<lparr>f_type = ''Feature'',
                          geom = \<lparr>g_type = ''Point'', coordinates = [lon, lat]\<rparr>,
                          properties = sanitize_props row\<rparr>],
                     trace := trace st2 @ [Sleep RATE_LIMIT_DELAY]\<rparr>)"

fun main_loop :: "pylib \<Rightarrow> service \<Rightarrow> mstate \<Rightarrow> rec list \<Rightarrow> mstate" where
  "main_loop lib srv st [] = st"
| "main_loop lib srv st (row # rows) = main_loop lib srv (main_row lib srv st row) rows"

text \<open>
  \<^verbatim>\<open>main\<close> after its start-up checks (the token is set, the CSV file exists): the
  collection it writes and the effects of the run.
\<close>

definition main :: "pylib \<Rightarrow> service \<Rightarrow> row list \<Rightarrow> feature_collection \<times> event list" where
  "main lib srv csv =
     (let st = main_loop lib srv \<lparr>feats = [], trace = [], calls = 0\<rparr> (read_rows csv)
      in (\<lparr>fc_type = ''FeatureCollection'', fc_features = feats st\<rparr>, trace st))"

section \<open>generate_map.py\<close>

text \<open>
  The loop both \<^verbatim>\<open>read_addresses\<close> and \<^verbatim>\<open>geocode_all\<close> end with: the items not yet in
  \<^verbatim>\<open>seen\<close> are added to it and appended to \<^verbatim>\<open>unique\<close>.
\<close>

fun dedup_loop :: "'a set \<Rightarrow> 'a list \<Rightarrow> 'a list \<Rightarrow> 'a list" where
  "dedup_loop seen unique [] = unique"
| "dedup_loop seen unique (a # as) =
     (if a \<notin> seen then dedup_loop (insert a seen) (unique @ [a]) as
      else dedup_loop seen unique as)"

definition dedup :: "'a list \<Rightarrow> 'a list" where
  "dedup xs = dedup_loop {} [] xs"

text \<open>The first loop of \<^verbatim>\<open>read_addresses\<close>: the addresses of the rows, in order.\<close>

fun addresses_of :: "row list \<Rightarrow> string list" where
  "addresses_of [] = []"
| "addresses_of (row # rows) =
     (let stad = strip (cell row ''Stad'');
          adres = strip (cell row ''Adres'');
          postcode = strip (cell row ''Postcode'')
      in if adres = [] then addresses_of rows
         else if stad \<noteq> [] \<and> lower stad \<noteq> ''utrecht'' then addresses_of rows
         else join '', '' (filter (\<lambda>p. p \<noteq> []) [adres, postcode, ''Utrecht, Nederland''])
                # addresses_of rows)"

definition read_addresses :: "row list \<Rightarrow> string list" where
  "read_addresses csv = dedup (addresses_of csv)"

text \<open>\<^verbatim>\<open>geocode_address\<close>: the request, then the first candidate's \<^verbatim>\<open>center\<close> as it is.\<close>

definition geocode_address :: "service \<Rightarrow> nat \<Rightarrow> string \<Rightarrow> exn + pyval" where
  "geocode_address srv n address =
     ebind (srv n address) (\<lambda>data.
     ebind (py_get data ''features'') (\<lambda>fv.
       let feats = (if truthy fv then fv else PList []) in
       if \<not> truthy feats then Inr PNone
       else ebind (py_index feats 0) (\<lambda>f0. py_get f0 ''center'')))"

text \<open>
  The state of the loop of \<^verbatim>\<open>geocode_all\<close>: the coordinates, the effects so far, the requests
  made. The conversion to floats stands outside the \<^verbatim>\<open>try\<close>: what it raises leaves the
  loop and the function, as the \<open>Inl\<close> result with the state reached.
\<close>

record gstate =
  coords :: "coord list"
  gtrace :: "event list"
  gcalls :: nat

fun geocode_loop :: "pylib \<Rightarrow> service \<Rightarrow> gstate \<Rightarrow> string list \<Rightarrow> (exn + unit) \<times> gstate" where
  "geocode_loop lib srv st [] = (Inr (), st)"
| "geocode_loop lib srv st (addr # rest) =
     (let st1 = st\<lparr>gtrace := gtrace st @ [Call addr], gcalls := gcalls st + 1\<rparr>;
          (c, st2) =
            (case geocode_address srv (gcalls st) addr of
               Inl e \<Rightarrow> (PNone, st1\<lparr>gtrace := gtrace st1 @ [Diag_exn addr e]\<rparr>)
             | Inr c \<Rightarrow> (c, st1))
      in if truthy c then
           (case center_pair lib c of
              Inl e \<Rightarrow> (Inl e, st2)
            | Inr (lon, lat) \<Rightarrow>
                geocode_loop lib srv
                  (st2\<lparr>coords := coords st2 @ [(lon, lat)],
                       gtrace := gtrace st2 @ [Sleep RATE_LIMIT_DELAY]\<rparr>) rest)
         else
           geocode_loop lib srv
             (st2\<lparr>gtrace := gtrace st2 @ [Diag_none addr, Sleep RATE_LIMIT_DELAY]\<rparr>) rest)"

definition geocode_all :: "pylib \<Rightarrow> service \<Rightarrow> string list \<Rightarrow> (exn + coord list) \<times> event list" where
  "geocode_all lib srv addresses =
     (case geocode_loop lib srv \<lparr>coords = [], gtrace = [], gcalls = 0\<rparr> addresses of
        (Inl e, st) \<Rightarrow> (Inl e, gtrace st)
      | (Inr u, st) \<Rightarrow> (Inr (dedup (coords st)), gtrace st))"

definition UTRECHT_CENTER :: coord where
  "UTRECHT_CENTER = (51214201 / 10000000, 520907374 / 10000000)"

definition DEFAULT_ZOOM :: nat where
  "DEFAULT_ZOOM = 12"

definition DEFAULT_SIZE :: "nat \<times> nat" where
  "DEFAULT_SIZE = (1280, 1280)"

definition MARKER_COLOR :: string where
  "MARKER_COLOR = ''ff2d20''"

definition build_marker_overlays :: "pylib \<Rightarrow> coord list \<Rightarrow> string" where
  "build_marker_overlays lib cs =
     join '','' (map (\<lambda>(lon, lat).
       ''pin-s+'' @ MARKER_COLOR @ ''('' @ fmt6 lib lon @ '','' @ fmt6 lib lat @ '')'') cs)"

text \<open>
  \<^verbatim>\<open>build_static_url\<close> with its default centre, zoom and size;
  \<^verbatim>\<open>urlencode({'access_token': token})\<close> is \<^verbatim>\<open>access_token=\<close> and the quoted token.
\<close>

definition build_static_url :: "pylib \<Rightarrow> string \<Rightarrow> string \<Rightarrow> string" where
  "build_static_url lib overlays token =
     (let (lon, lat) = UTRECHT_CENTER;
          (width, height) = DEFAULT_SIZE;
          base = ''https://api.mapbox.com/styles/v1/mapbox/streets-v12/static/'';
          path = overlays @ ''/'' @ fmt6 lib lon @ '','' @ fmt6 lib lat @ '','' @
                 str_nat DEFAULT_ZOOM @ '',0,0/'' @ str_nat width @ ''x'' @ str_nat height @ ''@2x''
      in base @ path @ ''?'' @ ''access_token='' @ quote_plus lib token)"

text \<open>
  \<^verbatim>\<open>chunk(iterable, n)\<close>: the slices \<^verbatim>\<open>iterable[i:i+n]\<close> for \<^verbatim>\<open>i\<close> in
  \<^verbatim>\<open>range(0, len(iterable), n)\<close>; \<^verbatim>\<open>range\<close> raises ValueError for a step of 0.
\<close>

definition chunk :: "'a list \<Rightarrow> nat \<Rightarrow> exn + 'a list list" where
  "chunk iterable n =
     (if n = 0 then Inl ValueError
      else Inr (map (\<lambda>k. take n (drop (k * n) iterable))
                  [0 ..< (length iterable + n - 1) div n]))"

text \<open>A download \<^verbatim>\<open>main\<close> asks for: the markers it shows, its URL and the file it is saved to.\<close>

record job =
  job_coords :: "coord list"
  job_url :: string
  job_out :: string

text \<open>
  The part of \<^verbatim>\<open>main\<close> after geocoding: the downloads it asks for, in order, when each
  download returns (an exception of \<^verbatim>\<open>download\<close> is not caught and ends the run). With no
  coordinates \<^verbatim>\<open>main\<close> exits before any download.
\<close>

definition main_jobs :: "pylib \<Rightarrow> string \<Rightarrow> coord list \<Rightarrow> exn + job list" where
  "main_jobs lib token cs =
     (if cs = [] then Inr []
      else
        let overlays_all = build_marker_overlays lib cs;
            test_url = build_static_url lib overlays_all token
        in if length test_url < 7800 then
             Inr [\<lparr>job_coords = cs, job_url = test_url, job_out = ''utrecht_markers.png''\<rparr>]
           else
             ebind (chunk cs 100) (\<lambda>subs.
               Inr (map (\<lambda>(i, sub).
                      \<lparr>job_coords = sub,
                       job_url = build_static_url lib (build_marker_overlays lib sub) token,
                       job_out = ''utrecht_markers_'' @ str_nat i @ ''.png''\<rparr>)
                    (enumerate 1 subs))))"

text \<open>
  \<^verbatim>\<open>main\<close> after its start-up checks: the addresses, the geocoding run and the downloads
  asked for. With no address it exits before any request.
\<close>

definition main_map :: "pylib \<Rightarrow> service \<Rightarrow> string \<Rightarrow> row list \<Rightarrow> (exn + job list) \<times> event list" where
  "main_map lib srv token csv =
     (let addresses = read_addresses csv in
      if addresses = [] then (Inr [], [])
      else
        case geocode_all lib srv addresses of
          (Inl e, tr) \<Rightarrow> (Inl e, tr)
        | (Inr cs, tr) \<Rightarrow> (main_jobs lib token cs, tr))"

section \<open>The words of the specification\<close>



text \<open>The position of the first occurrence of \<open>x\<close> in a list (its length when there is none).\<close>

fun first_pos :: "'a \<Rightarrow> 'a list \<Rightarrow> nat" where
  "first_pos x [] = 0"
| "first_pos x (y # ys) = (if x = y then 0 else Suc (first_pos x ys))"

text \<open>The addresses of the geocoding requests of a run, in the order they were made.\<close>

fun requests :: "event list \<Rightarrow> string list" where
  "requests [] = []"
| "requests (Call a # evs) = a # requests evs"
| "requests (_ # evs) = requests evs"

section \<open>Instances for the examples\<close>

text \<open>
  An instance of the library parameters for evaluating the model on concrete inputs:
  \<^verbatim>\<open>float\<close> of an integer that a double holds exactly, \<^verbatim>\<open>float\<close> of a string that is
  not a number, \<^verbatim>\<open>quote_plus\<close> of a string of unreserved characters. Its \<open>fmt6\<close> prints the
  two numbers of \<open>UTRECHT_CENTER\<close> as \<^verbatim>\<open>:.6f\<close> does and is a stand-in elsewhere, where the
  examples use no more than the length of what it prints.
\<close>

definition fmt6_stub :: "rat \<Rightarrow> string" where
  "fmt6_stub r =
     (if r = 51214201 / 10000000 then ''5.121420''
      else if r = 520907374 / 10000000 then ''52.090737''
      else ''0.000000'')"

definition lib0 :: pylib where
  "lib0 = \<lparr>float_of_int = (\<lambda>i. Inr (of_int i)), float_of_str = (\<lambda>s. Inl ValueError),
           fmt6 = fmt6_stub, quote_plus = (\<lambda>s. s)\<rparr>"

text \<open>
  Three services: one finds no candidate, one finds the same place for every address, one
  answers with a \<^verbatim>\<open>center\<close> of a single number.
\<close>

definition srv_none :: service where
  "srv_none = (\<lambda>n a. Inr (PDict [(''features'', PList [])]))"

definition srv_found :: service where
  "srv_found = (\<lambda>n a. Inr (PDict [(''features'',
      PList [PDict [(''center'',
        PList [PFloat (51214201 / 10000000), PFloat (520907374 / 10000000)])]])]))"

definition srv_short :: service where
  "srv_short = (\<lambda>n a. Inr (PDict [(''features'',
      PList [PDict [(''center'', PList [PFloat (51214201 / 10000000)])]])]))"

definition row_a :: row where
  "row_a = map_of [(''Naam persoon A'', ''Anna''), (''Adres'', ''Domplein 1''),
                   (''Postcode'', ''3512 JC''), (''Stad'', ''Utrecht'')]"

definition row_b :: row where
  "row_b = map_of [(''Naam persoon A'', ''Bram''), (''Adres'', ''Oudegracht 20''),
                   (''Postcode'', ''3511 AB''), (''Stad'', '' utrecht '')]"

definition row_c :: row where
  "row_c = map_of [(''Naam persoon A'', ''Cees''), (''Adres'', ''Coolsingel 40''),
                   (''Postcode'', ''3011 AD''), (''Stad'', ''Rotterdam'')]"

definition row_nostreet :: row where
  "row_nostreet = map_of [(''Naam persoon A'', ''Daan''), (''Adres'', '' ''),
                          (''Postcode'', ''3512 JC''), (''Stad'', ''Utrecht'')]"


definition row_full :: row where
  "row_full = map_of
     [(''Naam persoon A'', ''Anna''), (''Naam persoon B'', '' Bob ''),
      (''Adres'', ''Domplein 1''), (''Postcode'', ''3512 JC''), (''Stad'', ''Utrecht''),
      (''Team persoon A'', ''Rood''), (''Team persoon B'', ''Blauw''),
      (''Dieetwensen'', ''vegetarisch''),
      (''Allergie'' @ [CHR 0xC3, CHR 0xAB] @ ''n'', ''noten''),
      (''Overige opmerkingen'', ''geen''),
      (''Telefoon'', ''0612345678''), (''IBAN'', ''NL00BANK0123456789'')]"

definition row_full_other :: row where
  "row_full_other = map_of
     [(''Naam persoon A'', ''Anna''), (''Naam persoon B'', '' Bob ''),
      (''Adres'', ''Domplein 1''), (''Postcode'', ''3512 JC''), (''Stad'', ''Utrecht''),
      (''Team persoon A'', ''Rood''), (''Team persoon B'', ''Blauw''),
      (''Dieetwensen'', ''vegetarisch''),
      (''Allergie'' @ [CHR 0xC3, CHR 0xAB] @ ''n'', ''noten''),
      (''Overige opmerkingen'', ''geen''),
      (''Telefoon'', ''0687654321''), (''Email'', ''anna@example.org'')]"

definition cs250 :: "coord list" where
  "cs250 = map (\<lambda>i. (5 + of_nat i / 1000, 52)) [0..<250]"

section \<open>Properties\<close>

declare str_nat.simps [simp del]

declare drop_spaces.simps [simp del]

subsection \<open>The address of a record\<close>

lemma join_snoc_suffix: "suffix s (join sep (xs @ [s]))"
proof (induction sep xs rule: join.induct)
  case (1 sep) show ?case by simp
next
  case (2 sep p) show ?case by (simp add: suffix_def)
next
  case (3 sep p q ps)
  then obtain r where "join sep (q # ps @ [s]) = r @ s" by (auto simp: suffix_def)
  then show ?case by (simp add: suffix_def)
qed

lemma build_full_address_suffix: "suffix ''Utrecht, Nederland'' (build_full_address row)"
proof -
  let ?a = "strip (cell (cols row) ''Adres'')" and ?p = "strip (cell (cols row) ''Postcode'')"
  have "build_full_address row = join '', '' (filter (\<lambda>p. p \<noteq> []) [?a, ?p] @ [''Utrecht, Nederland''])"
    by (simp add: build_full_address_def Let_def)
  then show ?thesis by (simp only: join_snoc_suffix)
qed

lemma build_full_address_nonempty: "build_full_address row \<noteq> []"
  using build_full_address_suffix [of row] by (auto simp: suffix_def)


lemma main_row_not_excluded:
  assumes "\<not> city_excluded row"
  shows "\<exists>evs. trace (main_row lib srv st row) = trace st @ Call (build_full_address row) # evs"
  using assms build_full_address_nonempty [of row]
  by (auto simp: main_row_def Let_def split: sum.splits option.splits prod.splits)


text \<open>
  C10. The address \<^verbatim>\<open>build_full_address\<close> builds ends with \<^verbatim>\<open>Utrecht, Nederland\<close> for every
  record, so it is never empty, also when the street and the postal code are both empty; the
  branch of \<^verbatim>\<open>main\<close> that skips an empty address is never taken: every record the city test
  keeps reaches the geocoding request.
\<close>

theorem address_never_empty:
  "suffix ''Utrecht, Nederland'' (build_full_address row) \<and> build_full_address row \<noteq> [] \<and>
   (\<not> city_excluded row \<longrightarrow>
      (\<exists>evs. trace (main_row lib srv st row) = trace st @ Call (build_full_address row) # evs))"
  using build_full_address_suffix build_full_address_nonempty main_row_not_excluded by blast

theorem address_never_empty_witness:
  "build_full_address \<lparr>cols = Map.empty, row_idx = 0\<rparr> = ''Utrecht, Nederland'' \<and>
   \<not> city_excluded \<lparr>cols = Map.empty, row_idx = 0\<rparr> \<and>
   (\<exists>evs. trace (main_row lib0 srv_none \<lparr>feats = [], trace = [], calls = 0\<rparr>
                   \<lparr>cols = Map.empty, row_idx = 0\<rparr>) = Call ''Utrecht, Nederland'' # evs)"
proof -
  have a: "build_full_address \<lparr>cols = Map.empty, row_idx = 0\<rparr> = ''Utrecht, Nederland''"
    by code_simp
  have h: "\<not> city_excluded \<lparr>cols = Map.empty, row_idx = 0\<rparr>"
    by code_simp
  from address_never_empty [of "\<lparr>cols = Map.empty, row_idx = 0\<rparr>" lib0 srv_none
      "\<lparr>feats = [], trace = [], calls = 0\<rparr>"] h a
  show ?thesis by simp
qed

subsection \<open>The locality filter\<close>







subsection \<open>The properties of a feature\<close>

lemma sanitize_keys: "map fst (sanitize_props r) = map snd keep @ [''row'']"
  by (simp add: sanitize_props_def split_def)

lemma sanitize_cong:
  assumes "\<forall>k \<in> set (map fst keep). cols r1 k = cols r2 k" and "row_idx r1 = row_idx r2"
  shows "sanitize_props r1 = sanitize_props r2"
proof -
  have "\<And>kv. kv \<in> set keep \<Longrightarrow> cell (cols r1) (fst kv) = cell (cols r2) (fst kv)"
    using assms(1) by (simp add: cell_def)
  then have "map (\<lambda>(k, v). (v, VStr (strip (cell (cols r1) k)))) keep
           = map (\<lambda>(k, v). (v, VStr (strip (cell (cols r2) k)))) keep"
    by (simp add: split_def)
  with assms(2) show ?thesis by (simp add: sanitize_props_def)
qed

text \<open>
  C9. The properties of a record are exactly the ten allow-listed columns under their short
  names, each with the trimmed cell of its column, followed by \<^verbatim>\<open>row\<close> with the row index.
  So two records that agree on the ten columns and on the row index have the same properties,
  whatever their other columns hold: nothing of an unlisted column reaches the output.
\<close>

theorem sanitize_props_allow_list:
  "sanitize_props r1 =
     [(''naamA'', VStr (strip (cell (cols r1) ''Naam persoon A''))),
      (''naamB'', VStr (strip (cell (cols r1) ''Naam persoon B''))),
      (''adres'', VStr (strip (cell (cols r1) ''Adres''))),
      (''postcode'', VStr (strip (cell (cols r1) ''Postcode''))),
      (''stad'', VStr (strip (cell (cols r1) ''Stad''))),
      (''teamA'', VStr (strip (cell (cols r1) ''Team persoon A''))),
      (''teamB'', VStr (strip (cell (cols r1) ''Team persoon B''))),
      (''dieet'', VStr (strip (cell (cols r1) ''Dieetwensen''))),
      (''allergie'', VStr (strip (cell (cols r1) (''Allergie'' @ [CHR 0xC3, CHR 0xAB] @ ''n'')))),
      (''opmerking'', VStr (strip (cell (cols r1) ''Overige opmerkingen''))),
      (''row'', VInt (row_idx r1))] \<and>
   ((\<forall>k \<in> set [''Naam persoon A'', ''Naam persoon B'', ''Adres'', ''Postcode'', ''Stad'',
                 ''Team persoon A'', ''Team persoon B'', ''Dieetwensen'',
                 ''Allergie'' @ [CHR 0xC3, CHR 0xAB] @ ''n'', ''Overige opmerkingen''].
        cols r1 k = cols r2 k) \<and> row_idx r1 = row_idx r2 \<longrightarrow>
      sanitize_props r1 = sanitize_props r2)"
proof (intro conjI impI)
  show "sanitize_props r1 =
     [(''naamA'', VStr (strip (cell (cols r1) ''Naam persoon A''))),
      (''naamB'', VStr (strip (cell (cols r1) ''Naam persoon B''))),
      (''adres'', VStr (strip (cell (cols r1) ''Adres''))),
      (''postcode'', VStr (strip (cell (cols r1) ''Postcode''))),
      (''stad'', VStr (strip (cell (cols r1) ''Stad''))),
      (''teamA'', VStr (strip (cell (cols r1) ''Team persoon A''))),
      (''teamB'', VStr (strip (cell (cols r1) ''Team persoon B''))),
      (''dieet'', VStr (strip (cell (cols r1) ''Dieetwensen''))),
      (''allergie'', VStr (strip (cell (cols r1) (''Allergie'' @ [CHR 0xC3, CHR 0xAB] @ ''n'')))),
      (''opmerking'', VStr (strip (cell (cols r1) ''Overige opmerkingen''))),
      (''row'', VInt (row_idx r1))]"
    by (simp add: sanitize_props_def keep_def)
next
  assume a: "(\<forall>k \<in> set [''Naam persoon A'', ''Naam persoon B'', ''Adres'', ''Postcode'', ''Stad'',
                 ''Team persoon A'', ''Team persoon B'', ''Dieetwensen'',
                 ''Allergie'' @ [CHR 0xC3, CHR 0xAB] @ ''n'', ''Overige opmerkingen''].
        cols r1 k = cols r2 k) \<and> row_idx r1 = row_idx r2"
  have "map fst keep = [''Naam persoon A'', ''Naam persoon B'', ''Adres'', ''Postcode'', ''Stad'',
                 ''Team persoon A'', ''Team persoon B'', ''Dieetwensen'',
                 ''Allergie'' @ [CHR 0xC3, CHR 0xAB] @ ''n'', ''Overige opmerkingen'']"
    by (simp add: keep_def)
  with a have "\<forall>k \<in> set (map fst keep). cols r1 k = cols r2 k" by presburger
  moreover from a have "row_idx r1 = row_idx r2" by (rule conjunct2)
  ultimately show "sanitize_props r1 = sanitize_props r2" by (rule sanitize_cong)
qed

theorem sanitize_props_allow_list_witness:
  "row_full ''Telefoon'' \<noteq> row_full_other ''Telefoon'' \<and>
   row_full ''IBAN'' \<noteq> row_full_other ''IBAN'' \<and>
   sanitize_props \<lparr>cols = row_full, row_idx = 3\<rparr> =
     sanitize_props \<lparr>cols = row_full_other, row_idx = 3\<rparr> \<and>
   sanitize_props \<lparr>cols = row_full, row_idx = 3\<rparr> =
     [(''naamA'', VStr ''Anna''), (''naamB'', VStr ''Bob''), (''adres'', VStr ''Domplein 1''),
      (''postcode'', VStr ''3512 JC''), (''stad'', VStr ''Utrecht''), (''teamA'', VStr ''Rood''),
      (''teamB'', VStr ''Blauw''), (''dieet'', VStr ''vegetarisch''),
      (''allergie'', VStr ''noten''), (''opmerking'', VStr ''geen''), (''row'', VInt 3)]"
proof -
  let ?r = "\<lparr>cols = row_full, row_idx = 3\<rparr>"
  let ?r' = "\<lparr>cols = row_full_other, row_idx = 3\<rparr>"
  note t = sanitize_props_allow_list [of ?r ?r']
  have d: "row_full ''Telefoon'' \<noteq> row_full_other ''Telefoon''"
    "row_full ''IBAN'' \<noteq> row_full_other ''IBAN''"
    by (simp_all add: row_full_def row_full_other_def)
  have h: "\<forall>k \<in> set [''Naam persoon A'', ''Naam persoon B'', ''Adres'', ''Postcode'', ''Stad'',
                 ''Team persoon A'', ''Team persoon B'', ''Dieetwensen'',
                 ''Allergie'' @ [CHR 0xC3, CHR 0xAB] @ ''n'', ''Overige opmerkingen''].
      cols ?r k = cols ?r' k"
    by (simp add: row_full_def row_full_other_def)
  have i: "row_idx ?r = row_idx ?r'" by simp
  have v: "[(''naamA'', VStr (strip (cell (cols ?r) ''Naam persoon A''))),
      (''naamB'', VStr (strip (cell (cols ?r) ''Naam persoon B''))),
      (''adres'', VStr (strip (cell (cols ?r) ''Adres''))),
      (''postcode'', VStr (strip (cell (cols ?r) ''Postcode''))),
      (''stad'', VStr (strip (cell (cols ?r) ''Stad''))),
      (''teamA'', VStr (strip (cell (cols ?r) ''Team persoon A''))),
      (''teamB'', VStr (strip (cell (cols ?r) ''Team persoon B''))),
      (''dieet'', VStr (strip (cell (cols ?r) ''Dieetwensen''))),
      (''allergie'', VStr (strip (cell (cols ?r) (''Allergie'' @ [CHR 0xC3, CHR 0xAB] @ ''n'')))),
      (''opmerking'', VStr (strip (cell (cols ?r) ''Overige opmerkingen''))),
      (''row'', VInt (row_idx ?r))] =
     [(''naamA'', VStr ''Anna''), (''naamB'', VStr ''Bob''), (''adres'', VStr ''Domplein 1''),
      (''postcode'', VStr ''3512 JC''), (''stad'', VStr ''Utrecht''), (''teamA'', VStr ''Rood''),
      (''teamB'', VStr ''Blauw''), (''dieet'', VStr ''vegetarisch''),
      (''allergie'', VStr ''noten''), (''opmerking'', VStr ''geen''), (''row'', VInt 3)]"
    by code_simp
  have e: "sanitize_props ?r = sanitize_props ?r'"
    by (rule mp [OF t [THEN conjunct2] conjI [OF h i]])
  have w: "sanitize_props ?r =
     [(''naamA'', VStr ''Anna''), (''naamB'', VStr ''Bob''), (''adres'', VStr ''Domplein 1''),
      (''postcode'', VStr ''3512 JC''), (''stad'', VStr ''Utrecht''), (''teamA'', VStr ''Rood''),
      (''teamB'', VStr ''Blauw''), (''dieet'', VStr ''vegetarisch''),
      (''allergie'', VStr ''noten''), (''opmerking'', VStr ''geen''), (''row'', VInt 3)]"
    by (rule trans [OF t [THEN conjunct1] v])
  show ?thesis by (intro conjI d e w)
qed

subsection \<open>The feature collection\<close>

lemma sanitize_row: "map_of (sanitize_props r) ''row'' = Some (VInt (row_idx r))"
  by (simp add: sanitize_props_def keep_def)

lemma read_rows_nth: "i < length csv \<Longrightarrow> read_rows csv ! i = \<lparr>cols = csv ! i, row_idx = i\<rparr>"
  by (simp add: read_rows_def nth_enumerate_eq)

lemma length_read_rows: "length (read_rows csv) = length csv"
  by (simp add: read_rows_def)

lemma map_filter_upt_Suc:
  "List.map_filter f [0..<Suc n] =
     (case f 0 of None \<Rightarrow> [] | Some y \<Rightarrow> [y]) @ List.map_filter (\<lambda>i. f (Suc i)) [0..<n]"
proof -
  have "[0..<Suc n] = 0 # [Suc 0..<Suc n]" by (rule upt_conv_Cons) simp
  also have "[Suc 0..<Suc n] = map Suc [0..<n]" by (simp only: map_Suc_upt)
  finally have "[0..<Suc n] = 0 # map Suc [0..<n]" .
  then show ?thesis
    by (simp add: List.map_filter_def comp_def filter_map split: option.splits del: upt_Suc)
qed

lemma main_row_feats:
  "feats (main_row lib srv st r) = feats st @
     (case (if city_excluded r then None
            else case geocode lib srv (calls st) (build_full_address r) of
                   Inr (Some (lon, lat)) \<Rightarrow>
                     Some \<lparr>f_type = ''Feature'',
                           geom = \<lparr>g_type = ''Point'', coordinates = [lon, lat]\<rparr>,
                           properties = sanitize_props r\<rparr>
                 | _ \<Rightarrow> None) of None \<Rightarrow> [] | Some y \<Rightarrow> [y])"
  using build_full_address_nonempty [of r]
  by (auto simp: main_row_def Let_def split: sum.splits option.splits prod.splits)

lemma main_row_calls:
  "calls (main_row lib srv st r) = calls st + (if city_excluded r then 0 else 1)"
  using build_full_address_nonempty [of r]
  by (auto simp: main_row_def Let_def split: sum.splits option.splits prod.splits)

lemma main_loop_feats:
  "feats (main_loop lib srv st rs) = feats st @
     List.map_filter (\<lambda>i.
       let r = rs ! i in
       if city_excluded r then None
       else case geocode lib srv
                   (calls st + length (filter (\<lambda>r'. \<not> city_excluded r') (take i rs)))
                   (build_full_address r) of
              Inr (Some (lon, lat)) \<Rightarrow>
                Some \<lparr>f_type = ''Feature'',
                      geom = \<lparr>g_type = ''Point'', coordinates = [lon, lat]\<rparr>,
                      properties = sanitize_props r\<rparr>
            | _ \<Rightarrow> None) [0..<length rs]"
proof (induction rs arbitrary: st)
  case Nil
  show ?case by (simp add: List.map_filter_def)
next
  case (Cons r rs)
  have upt: "[0..<length (r # rs)] = [0..<Suc (length rs)]" by simp
  show ?case
    unfolding upt map_filter_upt_Suc main_loop.simps Cons.IH main_row_feats main_row_calls
    by (simp add: Let_def add.assoc cong: if_cong)
qed

text \<open>
  C7. \<^verbatim>\<open>main\<close> writes one object of type \<^verbatim>\<open>FeatureCollection\<close>. Its features are, in the
  order of the rows, those of the records that the city test keeps and whose geocoding request
  (the request whose number is the count of kept records before it) returned a pair: each has
  type \<^verbatim>\<open>Feature\<close>, a \<^verbatim>\<open>Point\<close> geometry with the coordinates \<open>[lon, lat]\<close> of exactly that
  pair, and the properties of its record, in which \<^verbatim>\<open>row\<close> is the record's index counted from
  0.
\<close>

theorem geojson_output:
  "fc_type (fst (main lib srv csv)) = ''FeatureCollection'' \<and>
   fc_features (fst (main lib srv csv)) =
     List.map_filter (\<lambda>i.
       let r = read_rows csv ! i in
       if city_excluded r then None
       else case geocode lib srv
                   (length (filter (\<lambda>r'. \<not> city_excluded r') (take i (read_rows csv))))
                   (build_full_address r) of
              Inr (Some (lon, lat)) \<Rightarrow>
                Some \<lparr>f_type = ''Feature'',
                      geom = \<lparr>g_type = ''Point'', coordinates = [lon, lat]\<rparr>,
                      properties = sanitize_props r\<rparr>
            | _ \<Rightarrow> None) [0..<length csv] \<and>
   (\<forall>i<length csv. map_of (sanitize_props (read_rows csv ! i)) ''row'' = Some (VInt i))"
  by (simp add: main_def Let_def main_loop_feats length_read_rows sanitize_row read_rows_nth
        cong: if_cong)

theorem geojson_output_witness:
  "fc_type (fst (main lib0 srv_found [row_a, row_b, row_c])) = ''FeatureCollection'' \<and>
   map (\<lambda>f. (f_type f, g_type (geom f), coordinates (geom f), map_of (properties f) ''row''))
     (fc_features (fst (main lib0 srv_found [row_a, row_b, row_c]))) =
     [(''Feature'', ''Point'', [51214201 / 10000000, 520907374 / 10000000], Some (VInt 0)),
      (''Feature'', ''Point'', [51214201 / 10000000, 520907374 / 10000000], Some (VInt 1))] \<and>
   map_of (sanitize_props (read_rows [row_a, row_b, row_c] ! 1)) ''row'' = Some (VInt 1)"
proof -
  have a: "map (\<lambda>f. (f_type f, g_type (geom f), coordinates (geom f), map_of (properties f) ''row''))
     (fc_features (fst (main lib0 srv_found [row_a, row_b, row_c]))) =
     [(''Feature'', ''Point'', [51214201 / 10000000, 520907374 / 10000000], Some (VInt 0)),
      (''Feature'', ''Point'', [51214201 / 10000000, 520907374 / 10000000], Some (VInt 1))]"
    by code_simp
  have l: "(1::nat) < length [row_a, row_b, row_c]" by simp
  from geojson_output [of lib0 srv_found "[row_a, row_b, row_c]"] l
  have "fc_type (fst (main lib0 srv_found [row_a, row_b, row_c])) = ''FeatureCollection''"
    and "map_of (sanitize_props (read_rows [row_a, row_b, row_c] ! 1)) ''row'' = Some (VInt 1)"
    by blast+
  with a show ?thesis by simp
qed

subsection \<open>Deduplication\<close>

lemma dedup_loop_append:
  "dedup_loop seen unique xs = unique @ dedup_loop seen [] xs"
proof (induction xs arbitrary: seen unique)
  case Nil show ?case by simp
next
  case (Cons a as)
  show ?case
  proof (cases "a \<in> seen")
    case True
    with Cons.IH [of seen unique] show ?thesis by simp
  next
    case False
    with Cons.IH [of "insert a seen" "unique @ [a]"] Cons.IH [of "insert a seen" "[a]"]
    show ?thesis by simp
  qed
qed

lemma dedup_loop_Cons:
  "dedup_loop seen [] (a # as) =
     (if a \<in> seen then dedup_loop seen [] as else a # dedup_loop (insert a seen) [] as)"
  using dedup_loop_append [of "insert a seen" "[a]" as] by simp

lemma set_dedup_loop: "set (dedup_loop seen [] xs) = set xs - seen"
  by (induction xs arbitrary: seen) (auto simp: dedup_loop_Cons simp del: dedup_loop.simps(2))

lemma distinct_dedup_loop: "distinct (dedup_loop seen [] xs)"
  by (induction xs arbitrary: seen)
     (auto simp: dedup_loop_Cons set_dedup_loop simp del: dedup_loop.simps(2))

lemma sorted_dedup_loop:
  "sorted_wrt (\<lambda>a b. first_pos a xs < first_pos b xs) (dedup_loop seen [] xs)"
proof (induction xs arbitrary: seen)
  case Nil show ?case by simp
next
  case (Cons a as)
  have shift: "sorted_wrt (\<lambda>x y. first_pos x (a # as) < first_pos y (a # as))
                 (dedup_loop s [] as)" if "a \<in> s" for s
  proof (rule sorted_wrt_mono_rel [OF _ Cons.IH [of s]])
    fix x y
    assume "x \<in> set (dedup_loop s [] as)" "y \<in> set (dedup_loop s [] as)"
      and "first_pos x as < first_pos y as"
    with that show "first_pos x (a # as) < first_pos y (a # as)"
      by (auto simp: set_dedup_loop)
  qed
  show ?case
  proof (cases "a \<in> seen")
    case True
    with shift [of seen] show ?thesis by (simp add: dedup_loop_Cons del: dedup_loop.simps(2))
  next
    case False
    with shift [of "insert a seen"] show ?thesis
      by (auto simp: dedup_loop_Cons set_dedup_loop simp del: dedup_loop.simps(2))
  qed
qed

lemma distinct_dedup: "distinct (dedup xs)"
  by (simp add: dedup_def distinct_dedup_loop)

text \<open>
  C4. The loop that ends \<^verbatim>\<open>read_addresses\<close> (on address strings) and \<^verbatim>\<open>geocode_all\<close> (on
  coordinate pairs) returns every distinct value of its input exactly once, and in the order
  of the first occurrences: of two values of the output, the earlier one occurs first in the
  input before the later one does.
\<close>

theorem dedup_first_occurrence:
  "distinct (dedup xs) \<and> set (dedup xs) = set xs \<and>
   sorted_wrt (\<lambda>a b. first_pos a xs < first_pos b xs) (dedup xs)"
  by (simp add: dedup_def distinct_dedup_loop set_dedup_loop sorted_dedup_loop)

theorem dedup_first_occurrence_witness:
  "dedup [''b'', ''a'', ''b'', ''c'', ''a''] = [''b'', ''a'', ''c''] \<and>
   distinct (dedup [''b'', ''a'', ''b'', ''c'', ''a'']) \<and>
   set (dedup [''b'', ''a'', ''b'', ''c'', ''a'']) = set [''b'', ''a'', ''b'', ''c'', ''a''] \<and>
   dedup [(5 :: rat, 52 :: rat), (4, 52), (5, 52)] = [(5, 52), (4, 52)]"
proof -
  have "dedup [''b'', ''a'', ''b'', ''c'', ''a''] = [''b'', ''a'', ''c'']"
    by (simp add: dedup_def)
  moreover have "dedup [(5 :: rat, 52 :: rat), (4, 52), (5, 52)] = [(5, 52), (4, 52)]"
    by (simp add: dedup_def)
  ultimately show ?thesis
    using dedup_first_occurrence [of "[''b'', ''a'', ''b'', ''c'', ''a'']"] by simp
qed

subsection \<open>The download jobs\<close>

lemma concat_chunks:
  "concat (map (\<lambda>k. take n (drop (k * n) xs)) [0..<m]) = take (m * n) xs"
proof (induction m)
  case 0 show ?case by simp
next
  case (Suc m)
  have "Suc m * n = m * n + n" by simp
  then have "take (Suc m * n) xs = take (m * n) xs @ take n (drop (m * n) xs)"
    by (simp only: take_add)
  with Suc show ?case by simp
qed

lemma ceil100:
  fixes L :: nat
  shows "(L + 99) div 100 = (if L mod 100 = 0 then L div 100 else L div 100 + 1)"
proof -
  define q r where "q = L div 100" and "r = L mod 100"
  have L: "L = r + q * 100" and r: "r < 100" by (simp_all add: q_def r_def)
  have "(L + 99) div 100 = q + (r + 99) div 100"
    unfolding L by (simp add: add.assoc add.commute add.left_commute)
  moreover have "(r + 99) div 100 = (if r = 0 then 0 else 1)"
  proof (cases "r = 0")
    case True then show ?thesis by simp
  next
    case False
    with r have "(r + 99) div 100 = 1" by (intro div_nat_eqI) simp_all
    with False show ?thesis by simp
  qed
  ultimately show ?thesis by (simp add: q_def r_def)
qed

lemma ceil100_ge:
  fixes L :: nat
  shows "L \<le> (L + 99) div 100 * 100"
proof -
  define q r where "q = L div 100" and "r = L mod 100"
  have L: "L = r + q * 100" and r: "r < 100" by (simp_all add: q_def r_def)
  have "(L + 99) div 100 = (if r = 0 then q else q + 1)"
    unfolding ceil100 q_def r_def by simp
  with L r show ?thesis by (simp split: if_splits)
qed

lemma chunk_len:
  fixes L k :: nat
  assumes "k < (L + 99) div 100"
  shows "min 100 (L - k * 100) =
     (if k + 1 < (L + 99) div 100 then 100 else if L mod 100 = 0 then 100 else L mod 100)"
proof -
  define q r where "q = L div 100" and "r = L mod 100"
  have L: "L = 100 * q + r" and r: "r < 100" by (simp_all add: q_def r_def)
  have m: "(L + 99) div 100 = (if r = 0 then q else q + 1)"
    unfolding ceil100 q_def r_def by simp
  show ?thesis
  proof (cases "r = 0")
    case True
    with assms m have kq: "k < q" by simp
    show ?thesis
    proof (cases "k + 1 < q")
      case True
      then have "100 * k + 100 \<le> 100 * q" by simp
      with \<open>r = 0\<close> L m True show ?thesis by (simp add: r_def [symmetric])
    next
      case False
      with kq have "q = k + 1" by simp
      with \<open>r = 0\<close> L m show ?thesis by (simp add: r_def [symmetric])
    qed
  next
    case False
    with assms m have kq: "k \<le> q" by simp
    show ?thesis
    proof (cases "k < q")
      case True
      then have "100 * k + 100 \<le> 100 * q" by simp
      with False L m True show ?thesis by (simp add: r_def [symmetric])
    next
      case False
      with kq have "q = k" by simp
      with \<open>r \<noteq> 0\<close> L m r show ?thesis by (simp add: r_def [symmetric])
    qed
  qed
qed

lemma chunk_100:
  "\<exists>subs. chunk (xs :: 'a list) 100 = Inr subs \<and> length subs = (length xs + 99) div 100 \<and>
     concat subs = xs \<and>
     (\<forall>k<length subs. length (subs ! k) =
        (if k + 1 < length subs then 100
         else if length xs mod 100 = 0 then 100 else length xs mod 100))"
proof -
  let ?m = "(length xs + 99) div 100"
  let ?subs = "map (\<lambda>k. take 100 (drop (k * 100) xs)) [0..<?m]"
  have c: "chunk xs 100 = Inr ?subs" by (simp add: chunk_def add.commute)
  have "length xs \<le> ?m * 100" by (rule ceil100_ge)
  then have cc: "concat ?subs = xs" by (simp add: concat_chunks)
  have len: "length (?subs ! k) =
        (if k + 1 < ?m then 100 else if length xs mod 100 = 0 then 100 else length xs mod 100)"
    if "k < ?m" for k
  proof -
    have "length (?subs ! k) = min 100 (length xs - k * 100)" using that by simp
    also have "\<dots> = (if k + 1 < ?m then 100
                      else if length xs mod 100 = 0 then 100 else length xs mod 100)"
      using that by (rule chunk_len)
    finally show ?thesis .
  qed
  show ?thesis using c cc len by (intro exI [of _ ?subs]) (simp del: upt_Suc)
qed

lemma job_coords_enumerate:
  "map (job_coords \<circ> (\<lambda>(i, sub). \<lparr>job_coords = sub, job_url = u sub, job_out = o' i\<rparr>))
     (enumerate n subs) = subs"
  by (induction subs arbitrary: n) simp_all

text \<open>
  C2. With no coordinates \<^verbatim>\<open>main\<close> asks for no download. For a non-empty list of \<open>N\<close>
  coordinates: when the URL composed for the whole list is shorter than 7800 characters it
  asks for exactly one download, of all of them; otherwise it asks for
  \<open>(N + 99) div 100\<close> downloads, whose coordinate lists concatenated are the original list,
  each of 100 coordinates but the last, which has \<open>N mod 100\<close> (100 when that is 0).
\<close>

theorem batch_planner:
  "main_jobs lib token [] = Inr [] \<and>
   (cs \<noteq> [] \<and> length (build_static_url lib (build_marker_overlays lib cs) token) < 7800 \<longrightarrow>
      (\<exists>j. main_jobs lib token cs = Inr [j] \<and> job_coords j = cs)) \<and>
   (cs \<noteq> [] \<and> \<not> length (build_static_url lib (build_marker_overlays lib cs) token) < 7800 \<longrightarrow>
      (\<exists>js. main_jobs lib token cs = Inr js \<and> length js = (length cs + 99) div 100 \<and>
         concat (map job_coords js) = cs \<and>
         (\<forall>k<length js. length (job_coords (js ! k)) =
            (if k + 1 < length js then 100
             else if length cs mod 100 = 0 then 100 else length cs mod 100))))"
proof (intro conjI impI)
  show "main_jobs lib token [] = Inr []" by (simp add: main_jobs_def)
next
  assume "cs \<noteq> [] \<and> length (build_static_url lib (build_marker_overlays lib cs) token) < 7800"
  then show "\<exists>j. main_jobs lib token cs = Inr [j] \<and> job_coords j = cs"
    by (simp add: main_jobs_def Let_def)
next
  assume a: "cs \<noteq> [] \<and>
    \<not> length (build_static_url lib (build_marker_overlays lib cs) token) < 7800"
  obtain subs where c: "chunk cs 100 = Inr subs" and l: "length subs = (length cs + 99) div 100"
    and cc: "concat subs = cs"
    and each: "\<And>k. k < length subs \<Longrightarrow> length (subs ! k) =
        (if k + 1 < length subs then 100
         else if length cs mod 100 = 0 then 100 else length cs mod 100)"
    using chunk_100 [of cs] by blast
  let ?mk = "\<lambda>(i, sub). \<lparr>job_coords = sub,
                 job_url = build_static_url lib (build_marker_overlays lib sub) token,
                 job_out = ''utrecht_markers_'' @ str_nat i @ ''.png''\<rparr>"
  let ?js = "map ?mk (enumerate 1 subs)"
  have m: "main_jobs lib token cs = Inr ?js"
    using a c by (simp add: main_jobs_def Let_def ebind_def)
  have jc: "map job_coords ?js = subs"
    using job_coords_enumerate
      [of "\<lambda>sub. build_static_url lib (build_marker_overlays lib sub) token"
        "\<lambda>i. ''utrecht_markers_'' @ str_nat i @ ''.png''" 1 subs]
    by simp
  have len: "length ?js = length subs" by simp
  have nth: "job_coords (?js ! k) = subs ! k" if "k < length subs" for k
  proof -
    have "job_coords (?js ! k) = map job_coords ?js ! k" using that by (simp only: nth_map len)
    then show ?thesis by (simp only: jc)
  qed
  show "\<exists>js. main_jobs lib token cs = Inr js \<and> length js = (length cs + 99) div 100 \<and>
         concat (map job_coords js) = cs \<and>
         (\<forall>k<length js. length (job_coords (js ! k)) =
            (if k + 1 < length js then 100
             else if length cs mod 100 = 0 then 100 else length cs mod 100))"
  proof (intro exI [of _ ?js] conjI allI impI)
    show "main_jobs lib token cs = Inr ?js" by (rule m)
    show "length ?js = (length cs + 99) div 100" using l by simp
    show "concat (map job_coords ?js) = cs" by (simp only: jc cc)
    fix k assume "k < length ?js"
    then have k: "k < length subs" by simp
    show "length (job_coords (?js ! k)) =
            (if k + 1 < length ?js then 100
             else if length cs mod 100 = 0 then 100 else length cs mod 100)"
      by (simp only: nth [OF k] each [OF k] len)
  qed
qed

lemma join_length_ge:
  "(\<And>p. p \<in> set ps \<Longrightarrow> m \<le> length p) \<Longrightarrow> m * length ps \<le> length (join sep ps)"
proof (induction sep ps rule: join.induct)
  case (1 sep) show ?case by simp
next
  case (2 sep p) then show ?case by simp
next
  case (3 sep p q ps)
  have "m \<le> length p" using "3.prems" by simp
  moreover have "m * length (q # ps) \<le> length (join sep (q # ps))"
    using "3.IH" "3.prems" by simp
  ultimately show ?case by simp
qed

lemma static_url_length: "length overlays + 59 \<le> length (build_static_url lib overlays token)"
  by (simp add: build_static_url_def UTRECHT_CENTER_def DEFAULT_SIZE_def Let_def)

theorem batch_planner_witness:
  "main_jobs lib0 ''tok'' [] = Inr [] \<and>
   length (build_static_url lib0 (build_marker_overlays lib0 [(5, 52), (4, 52)]) ''tok'') < 7800 \<and>
   (\<exists>j. main_jobs lib0 ''tok'' [(5, 52), (4, 52)] = Inr [j] \<and> job_coords j = [(5, 52), (4, 52)]) \<and>
   cs250 \<noteq> [] \<and>
   \<not> length (build_static_url lib0 (build_marker_overlays lib0 cs250) ''tok'') < 7800 \<and>
   (\<exists>js. main_jobs lib0 ''tok'' cs250 = Inr js \<and> length js = 3 \<and>
      concat (map job_coords js) = cs250 \<and>
      map (\<lambda>j. length (job_coords j)) js = [100, 100, 50])"
proof -
  note t = batch_planner [of lib0 "''tok''"]
  have n: "length cs250 = 250" by (simp add: cs250_def)
  then have ne: "cs250 \<noteq> []" by auto
  have small: "length (build_static_url lib0 (build_marker_overlays lib0 [(5, 52), (4, 52)]) ''tok'')
      < 7800"
    by (simp add: build_static_url_def build_marker_overlays_def UTRECHT_CENTER_def
          DEFAULT_SIZE_def DEFAULT_ZOOM_def MARKER_COLOR_def lib0_def fmt6_stub_def
          str_nat.simps Let_def)
  have "31 * length (map (\<lambda>(lon, lat). ''pin-s+'' @ MARKER_COLOR @ ''('' @ fmt6 lib0 lon @
            '','' @ fmt6 lib0 lat @ '')'') cs250)
        \<le> length (build_marker_overlays lib0 cs250)"
    unfolding build_marker_overlays_def
    by (rule join_length_ge) (auto simp: MARKER_COLOR_def lib0_def fmt6_stub_def)
  with n have "7750 \<le> length (build_marker_overlays lib0 cs250)" by simp
  with static_url_length [of "build_marker_overlays lib0 cs250" lib0 "''tok''"]
  have big: "\<not> length (build_static_url lib0 (build_marker_overlays lib0 cs250) ''tok'') < 7800"
    by simp
  from t [of "[(5, 52), (4, 52)]"] small
  have one: "\<exists>j. main_jobs lib0 ''tok'' [(5, 52), (4, 52)] = Inr [j] \<and>
      job_coords j = [(5, 52), (4, 52)]"
    by simp
  from t [of cs250] ne big n obtain js where js: "main_jobs lib0 ''tok'' cs250 = Inr js"
    and l: "length js = 3" and cc: "concat (map job_coords js) = cs250"
    and each: "\<forall>k<length js. length (job_coords (js ! k)) =
            (if k + 1 < length js then 100 else 50)"
    by auto
  from l obtain j0 j1 j2 where eq: "js = [j0, j1, j2]"
    by (auto simp: numeral_3_eq_3 length_Suc_conv)
  from each [rule_format, of 0] each [rule_format, of 1] each [rule_format, of 2] l eq
  have "length (job_coords j0) = 100" "length (job_coords j1) = 100"
    "length (job_coords j2) = 50"
    by simp_all
  with eq have "map (\<lambda>j. length (job_coords j)) js = [100, 100, 50]" by simp
  with js l cc have "\<exists>js. main_jobs lib0 ''tok'' cs250 = Inr js \<and> length js = 3 \<and>
      concat (map job_coords js) = cs250 \<and>
      map (\<lambda>j. length (job_coords j)) js = [100, 100, 50]"
    by (intro exI [of _ js]) simp
  with t [of "[]"] small one ne big show ?thesis by simp
qed

subsection \<open>The geocoding requests of a run\<close>

lemma requests_append: "requests (xs @ ys) = requests xs @ requests ys"
  by (induction xs rule: requests.induct) simp_all

lemma main_row_requests:
  "requests (trace (main_row lib srv st r)) =
     requests (trace st) @ (if city_excluded r then [] else [build_full_address r])"
  using build_full_address_nonempty [of r]
  by (auto simp: main_row_def Let_def requests_append
           split: sum.splits option.splits prod.splits)

lemma main_loop_requests:
  "requests (trace (main_loop lib srv st rs)) =
     requests (trace st) @ map build_full_address (filter (\<lambda>r. \<not> city_excluded r) rs)"
  by (induction rs arbitrary: st) (simp_all add: main_row_requests)

lemma prefix_step:
  assumes "prefix R (requests (gtrace st') @ as)"
    and "requests (gtrace st') = requests (gtrace st) @ [a]"
  shows "prefix R (requests (gtrace st) @ a # as)"
  using assms by simp

lemma geocode_loop_requests:
  "prefix (requests (gtrace (snd (geocode_loop lib srv st as)))) (requests (gtrace st) @ as)"
proof (induction as arbitrary: st)
  case Nil show ?case by simp
next
  case (Cons a as)
  show ?case
    by (auto simp: Let_def requests_append split: sum.splits prod.splits
             intro!: prefix_step [OF Cons.IH])
qed

lemma geocode_all_requests: "prefix (requests (snd (geocode_all lib srv as))) as"
  using geocode_loop_requests [of lib srv "\<lparr>coords = [], gtrace = [], gcalls = 0\<rparr>" as]
  by (auto simp: geocode_all_def split: prod.splits sum.splits)

lemma main_map_requests:
  "prefix (requests (snd (main_map lib srv token csv))) (read_addresses csv)"
  using geocode_all_requests [of lib srv "read_addresses csv"]
  by (auto simp: main_map_def Let_def split: prod.splits sum.splits)

lemma distinct_prefix: "prefix xs ys \<Longrightarrow> distinct ys \<Longrightarrow> distinct xs"
  by (auto simp: prefix_def)

text \<open>
  C8, as the claim states it, fails for \<^verbatim>\<open>export_geojson.py\<close>: two records with the same
  address are geocoded twice.
\<close>

theorem duplicate_requests_counterexample:
  "\<not> distinct (requests (snd (main lib0 srv_found [row_a, row_a])))"
  by code_simp

text \<open>
  C8, amended. In \<^verbatim>\<open>generate_map.py\<close> no two requests of a run are made for equal address
  strings. \<^verbatim>\<open>export_geojson.py\<close> does not deduplicate: a record that the city test keeps
  and whose street is not empty gets exactly one request, for its own address, a record that
  the city test drops gets none, and on input where every kept record has a street the
  requests of the run are the addresses of the kept records, one for each, in the order of
  the rows (so that equal addresses are asked for once per record).
\<close>

theorem requests_of_a_run:
  "distinct (requests (snd (main_map lib srv token csv))) \<and>
   (\<not> city_excluded r \<and> strip (cell (cols r) ''Adres'') \<noteq> [] \<longrightarrow>
      requests (trace (main_row lib srv st r)) = requests (trace st) @ [build_full_address r]) \<and>
   (city_excluded r \<longrightarrow> requests (trace (main_row lib srv st r)) = requests (trace st)) \<and>
   ((\<forall>r \<in> set (read_rows csv). \<not> city_excluded r \<longrightarrow> strip (cell (cols r) ''Adres'') \<noteq> []) \<longrightarrow>
      requests (snd (main lib srv csv)) =
        map build_full_address (filter (\<lambda>r. \<not> city_excluded r) (read_rows csv)))"
proof -
  have "distinct (requests (snd (main_map lib srv token csv)))"
    using main_map_requests [of lib srv token csv]
    by (rule distinct_prefix) (simp add: read_addresses_def distinct_dedup)
  then show ?thesis by (simp add: main_def Let_def main_loop_requests main_row_requests)
qed

theorem requests_of_a_run_witness:
  "requests (snd (main_map lib0 srv_found ''tok'' [row_a, row_b, row_c, row_a])) =
     [''Domplein 1, 3512 JC, Utrecht, Nederland'', ''Oudegracht 20, 3511 AB, Utrecht, Nederland''] \<and>
   distinct (requests (snd (main_map lib0 srv_found ''tok'' [row_a, row_b, row_c, row_a]))) \<and>
   \<not> city_excluded \<lparr>cols = row_a, row_idx = 3\<rparr> \<and>
   strip (cell (cols \<lparr>cols = row_a, row_idx = 3\<rparr>) ''Adres'') \<noteq> [] \<and>
   requests (trace (main_row lib0 srv_found \<lparr>feats = [], trace = [], calls = 2\<rparr>
       \<lparr>cols = row_a, row_idx = 3\<rparr>)) = [''Domplein 1, 3512 JC, Utrecht, Nederland''] \<and>
   city_excluded \<lparr>cols = row_c, row_idx = 2\<rparr> \<and>
   requests (trace (main_row lib0 srv_found \<lparr>feats = [], trace = [], calls = 2\<rparr>
       \<lparr>cols = row_c, row_idx = 2\<rparr>)) = [] \<and>
   requests (snd (main lib0 srv_found [row_a, row_b, row_c, row_a])) =
     [''Domplein 1, 3512 JC, Utrecht, Nederland'', ''Oudegracht 20, 3511 AB, Utrecht, Nederland'',
      ''Domplein 1, 3512 JC, Utrecht, Nederland'']"
proof -
  note t1 = requests_of_a_run [of lib0 srv_found "''tok''" "[row_a, row_b, row_c, row_a]"
      "\<lparr>cols = row_a, row_idx = 3\<rparr>" "\<lparr>feats = [], trace = [], calls = 2\<rparr>"]
  note t2 = requests_of_a_run [of lib0 srv_found "''tok''" "[row_a, row_b, row_c, row_a]"
      "\<lparr>cols = row_c, row_idx = 2\<rparr>" "\<lparr>feats = [], trace = [], calls = 2\<rparr>"]
  have a: "read_addresses [row_a, row_b, row_c, row_a] =
     [''Domplein 1, 3512 JC, Utrecht, Nederland'', ''Oudegracht 20, 3511 AB, Utrecht, Nederland'']"
    by code_simp
  have b: "requests (snd (geocode_all lib0 srv_found
       [''Domplein 1, 3512 JC, Utrecht, Nederland'', ''Oudegracht 20, 3511 AB, Utrecht, Nederland''])) =
     [''Domplein 1, 3512 JC, Utrecht, Nederland'', ''Oudegracht 20, 3511 AB, Utrecht, Nederland'']"
    by code_simp
  have c: "requests (snd (main_map lib0 srv_found ''tok'' [row_a, row_b, row_c, row_a])) =
     [''Domplein 1, 3512 JC, Utrecht, Nederland'', ''Oudegracht 20, 3511 AB, Utrecht, Nederland'']"
    using b by (auto simp: main_map_def a Let_def split: prod.splits sum.splits)
  have h: "\<forall>r \<in> set (read_rows [row_a, row_b, row_c, row_a]).
      \<not> city_excluded r \<longrightarrow> strip (cell (cols r) ''Adres'') \<noteq> []"
    by code_simp
  have ka: "\<not> city_excluded \<lparr>cols = row_a, row_idx = 3\<rparr>"
    and sa: "strip (cell (cols \<lparr>cols = row_a, row_idx = 3\<rparr>) ''Adres'') \<noteq> []"
    and kc: "city_excluded \<lparr>cols = row_c, row_idx = 2\<rparr>"
    and aa: "build_full_address \<lparr>cols = row_a, row_idx = 3\<rparr> =
      ''Domplein 1, 3512 JC, Utrecht, Nederland''"
    by code_simp+
  have d: "map build_full_address
        (filter (\<lambda>r. \<not> city_excluded r) (read_rows [row_a, row_b, row_c, row_a])) =
     [''Domplein 1, 3512 JC, Utrecht, Nederland'', ''Oudegracht 20, 3511 AB, Utrecht, Nederland'',
      ''Domplein 1, 3512 JC, Utrecht, Nederland'']"
    by code_simp
  have z: "requests (trace \<lparr>feats = [], trace = [], calls = 2\<rparr>) = []" by simp
  have e1: "requests (trace (main_row lib0 srv_found
      \<lparr>feats = [], trace = [], calls = 2\<rparr> \<lparr>cols = row_a, row_idx = 3\<rparr>)) =
      [''Domplein 1, 3512 JC, Utrecht, Nederland'']"
    using mp [OF t1 [THEN conjunct2, THEN conjunct1] conjI [OF ka sa]]
    unfolding z aa by simp
  have e2: "requests (trace (main_row lib0 srv_found
      \<lparr>feats = [], trace = [], calls = 2\<rparr> \<lparr>cols = row_c, row_idx = 2\<rparr>)) = []"
    using mp [OF t2 [THEN conjunct2, THEN conjunct2, THEN conjunct1] kc]
    unfolding z .
  have e3: "requests (snd (main lib0 srv_found [row_a, row_b, row_c, row_a])) =
     [''Domplein 1, 3512 JC, Utrecht, Nederland'', ''Oudegracht 20, 3511 AB, Utrecht, Nederland'',
      ''Domplein 1, 3512 JC, Utrecht, Nederland'']"
    by (rule trans [OF mp [OF t1 [THEN conjunct2, THEN conjunct2, THEN conjunct2] h] d])
  have dist: "distinct (requests (snd (main_map lib0 srv_found ''tok'' [row_a, row_b, row_c, row_a])))"
    by (rule t1 [THEN conjunct1])
  show ?thesis by (intro conjI c dist ka sa e1 kc e2 e3)
qed

subsection \<open>Where the scripts part from the specification\<close>

text \<open>
  C1. In \<^verbatim>\<open>generate_map.py\<close> the conversion \<^verbatim>\<open>float(c[0]), float(c[1])\<close> stands after the
  \<^verbatim>\<open>try\<close>: an answer whose \<^verbatim>\<open>center\<close> has one number raises IndexError out of
  \<^verbatim>\<open>geocode_all\<close>, and the second address is never asked for. \<^verbatim>\<open>export_geojson.py\<close>
  converts inside \<^verbatim>\<open>geocode\<close>, under its \<^verbatim>\<open>try\<close>: on the same answers it reports both
  records and goes on.
\<close>

theorem malformed_center_aborts_geocode_all:
  "main_map lib0 srv_short ''tok'' [row_a, row_b] =
     (Inl IndexError, [Call ''Domplein 1, 3512 JC, Utrecht, Nederland'']) \<and>
   main lib0 srv_short [row_a, row_b] =
     (\<lparr>fc_type = ''FeatureCollection'', fc_features = []\<rparr>,
      [Call ''Domplein 1, 3512 JC, Utrecht, Nederland'',
       Diag_exn ''Domplein 1, 3512 JC, Utrecht, Nederland'' IndexError,
       Diag_none ''Domplein 1, 3512 JC, Utrecht, Nederland'',
       Call ''Oudegracht 20, 3511 AB, Utrecht, Nederland'',
       Diag_exn ''Oudegracht 20, 3511 AB, Utrecht, Nederland'' IndexError,
       Diag_none ''Oudegracht 20, 3511 AB, Utrecht, Nederland''])"
proof -
  have a: "read_addresses [row_a, row_b] =
     [''Domplein 1, 3512 JC, Utrecht, Nederland'', ''Oudegracht 20, 3511 AB, Utrecht, Nederland'']"
    by code_simp
  have b: "geocode_all lib0 srv_short
       [''Domplein 1, 3512 JC, Utrecht, Nederland'', ''Oudegracht 20, 3511 AB, Utrecht, Nederland''] =
     (Inl IndexError, [Call ''Domplein 1, 3512 JC, Utrecht, Nederland''])"
    by code_simp
  have c: "main lib0 srv_short [row_a, row_b] =
     (\<lparr>fc_type = ''FeatureCollection'', fc_features = []\<rparr>,
      [Call ''Domplein 1, 3512 JC, Utrecht, Nederland'',
       Diag_exn ''Domplein 1, 3512 JC, Utrecht, Nederland'' IndexError,
       Diag_none ''Domplein 1, 3512 JC, Utrecht, Nederland'',
       Call ''Oudegracht 20, 3511 AB, Utrecht, Nederland'',
       Diag_exn ''Oudegracht 20, 3511 AB, Utrecht, Nederland'' IndexError,
       Diag_none ''Oudegracht 20, 3511 AB, Utrecht, Nederland''])"
    by code_simp
  show ?thesis using b c by (simp add: main_map_def a)
qed

text \<open>
  C3. \<^verbatim>\<open>export_geojson.py\<close> geocodes a record whose street is blank, for the address made
  of its postal code and the suffix, and writes a feature for it; \<^verbatim>\<open>generate_map.py\<close> skips
  the same row.
\<close>

theorem empty_street_is_geocoded:
  "strip (cell row_nostreet ''Adres'') = [] \<and>
   main lib0 srv_found [row_nostreet] =
     (\<lparr>fc_type = ''FeatureCollection'',
       fc_features =
         [\<lparr>f_type = ''Feature'',
           geom = \<lparr>g_type = ''Point'',
                   coordinates = [51214201 / 10000000, 520907374 / 10000000]\<rparr>,
           properties =
             [(''naamA'', VStr ''Daan''), (''naamB'', VStr []), (''adres'', VStr []),
              (''postcode'', VStr ''3512 JC''), (''stad'', VStr ''Utrecht''),
              (''teamA'', VStr []), (''teamB'', VStr []), (''dieet'', VStr []),
              (''allergie'', VStr []), (''opmerking'', VStr []), (''row'', VInt 0)]\<rparr>]\<rparr>,
      [Call ''3512 JC, Utrecht, Nederland'', Sleep 150]) \<and>
   read_addresses [row_nostreet] = []"
  by code_simp

text \<open>
  C5. In \<^verbatim>\<open>export_geojson.py\<close> the \<^verbatim>\<open>continue\<close> of the "no result" branch skips
  \<^verbatim>\<open>time.sleep\<close>: after a request without a result the next request follows with no delay
  between them. \<^verbatim>\<open>geocode_all\<close> of \<^verbatim>\<open>generate_map.py\<close> sleeps after every request.
\<close>

theorem no_delay_after_failed_request:
  "snd (main lib0 srv_none [row_a, row_b]) =
     [Call ''Domplein 1, 3512 JC, Utrecht, Nederland'',
      Diag_none ''Domplein 1, 3512 JC, Utrecht, Nederland'',
      Call ''Oudegracht 20, 3511 AB, Utrecht, Nederland'',
      Diag_none ''Oudegracht 20, 3511 AB, Utrecht, Nederland''] \<and>
   snd (geocode_all lib0 srv_none (read_addresses [row_a, row_b])) =
     [Call ''Domplein 1, 3512 JC, Utrecht, Nederland'',
      Diag_none ''Domplein 1, 3512 JC, Utrecht, Nederland'', Sleep 150,
      Call ''Oudegracht 20, 3511 AB, Utrecht, Nederland'',
      Diag_none ''Oudegracht 20, 3511 AB, Utrecht, Nederland'', Sleep 150]"
  by code_simp

end
